theory Spec2Isabelle
  imports Main
begin

section \<open>The person records of \<open>app.py\<close>\<close>

text \<open>
  The two SQLAlchemy models. Every column but the primary key is declared without
  \<open>nullable=False\<close>, so a Python attribute is either a value or \<open>None\<close>.
  \<open>OutputPerson\<close> has the columns of \<open>InputPerson\<close> and \<open>is_cool\<close>, which is
  written here as a record extension. The records hold the columns an object is built
  from; the primary key \<open>id\<close> is assigned by the store and stands beside the record
  in a table row (see \<open>table\<close> below).

  A Python \<open>str\<close> is a \<open>string\<close>: a list of 8-bit characters, read as the code
  points 0 to 255.
\<close>

record InputPerson =
  name :: "string option"
  nickname :: "string option"
  gender :: "string option"
  age :: "int option"

record OutputPerson = InputPerson +
  is_cool :: "bool option"

text \<open>The exceptions the handlers can meet.\<close>

datatype error =
    OperationalError  \<comment> \<open>SQLAlchemy: the table does not exist (the spec's StoreUnavailable)\<close>
  | IndexError        \<comment> \<open>\<open>[0]\<close> on an empty list\<close>
  | TypeError         \<comment> \<open>\<open>str.split(None)\<close>\<close>

section \<open>\<open>str.split\<close> and the \<open>first_name\<close> property\<close>

text \<open>
  \<open>str.isspace\<close> on one character, for the code points below 256: tab, line feed,
  vertical tab, form feed, carriage return, the separators 0x1C to 0x1F, space,
  next line (0x85) and no-break space (0xA0).
\<close>

definition isspace :: "char \<Rightarrow> bool" where
  "isspace c = (of_char c \<in> {9, 10, 11, 12, 13, 28, 29, 30, 31, 32, 133, 160 :: nat})"

text \<open>
  \<open>str.split(s)\<close> with no separator, as CPython's \<open>split_whitespace\<close> does it: skip
  a run of whitespace, stop at the end of the string, otherwise take the characters
  up to the next whitespace as one token, and go on behind it.
\<close>

function str_split :: "string \<Rightarrow> string list" where
  "str_split [] = []"
| "str_split (c # cs) =
     (if isspace c then str_split cs
      else (c # takeWhile (\<lambda>x. \<not> isspace x) cs)
             # str_split (dropWhile (\<lambda>x. \<not> isspace x) cs))"
  by pat_completeness auto
termination
  by (relation "measure length") (auto simp: length_dropWhile_le less_Suc_eq_le)

text \<open>
  \<^verbatim>\<open>
  @property
  def first_name(self):
      return str.split(self.name)[0]
  \<close>
  \<open>str.split(None)\<close> raises TypeError, and \<open>[0]\<close> on the empty list raises
  IndexError.
\<close>

definition first_name :: "OutputPerson \<Rightarrow> error + string" where
  "first_name self =
     (case name self of
        None \<Rightarrow> Inl TypeError
      | Some s \<Rightarrow> (case str_split s of [] \<Rightarrow> Inl IndexError | tok # _ \<Rightarrow> Inr tok))"

text \<open>
  The spec's words for the derived field: "the first whitespace-delimited token of
  name". A name has a token when one of its characters is not whitespace; the first
  token starts at the first such character and runs up to the next whitespace.
\<close>

definition has_token :: "string \<Rightarrow> bool" where
  "has_token s = (\<not> list_all isspace s)"

definition first_token :: "string \<Rightarrow> string" where
  "first_token s = takeWhile (\<lambda>x. \<not> isspace x) (dropWhile isspace s)"

section \<open>The two databases\<close>

text \<open>
  A table is the list of its rows in rowid order, each row the primary key with the
  column values; \<open>Model.query.all()\<close> returns them in this order. A database whose
  table was never created (or was dropped) is \<open>None\<close>. \<open>input_database\<close> is the
  bind of that name, holding the table of \<open>InputPerson\<close>; \<open>default_database\<close> is
  the default bind, holding the table of \<open>OutputPerson\<close>.
\<close>

type_synonym 'a table = "(int \<times> 'a) list"

record database =
  input_database :: "InputPerson table option"
  default_database :: "OutputPerson table option"

text \<open>
  \<open>db.drop_all(bind=...)\<close> and \<open>db.create_all(bind=...)\<close>: \<open>bind=None\<close> is the
  default database, \<open>bind='input_database'\<close> the other one; no table belongs to any
  other bind key. Both check first, so dropping a missing table and creating an
  existing one change nothing.
\<close>

definition drop_all :: "string option \<Rightarrow> database \<Rightarrow> database" where
  "drop_all bind db =
     (if bind = None then db\<lparr>default_database := None\<rparr>
      else if bind = Some ''input_database'' then db\<lparr>input_database := None\<rparr>
      else db)"

definition create_all :: "string option \<Rightarrow> database \<Rightarrow> database" where
  "create_all bind db =
     (if bind = None then
        (case default_database db of
           None \<Rightarrow> db\<lparr>default_database := Some []\<rparr>
         | Some _ \<Rightarrow> db)
      else if bind = Some ''input_database'' then
        (case input_database db of
           None \<Rightarrow> db\<lparr>input_database := Some []\<rparr>
         | Some _ \<Rightarrow> db)
      else db)"

text \<open>\<open>InputPerson.query.all()\<close> and \<open>OutputPerson.query.all()\<close>.\<close>

definition InputPerson_query_all :: "database \<Rightarrow> error + InputPerson table" where
  "InputPerson_query_all db =
     (case input_database db of None \<Rightarrow> Inl OperationalError | Some rows \<Rightarrow> Inr rows)"

definition OutputPerson_query_all :: "database \<Rightarrow> error + OutputPerson table" where
  "OutputPerson_query_all db =
     (case default_database db of None \<Rightarrow> Inl OperationalError | Some rows \<Rightarrow> Inr rows)"



definition next_id :: "'a table \<Rightarrow> int" where
  "next_id rows = (case map fst rows of [] \<Rightarrow> 1 | i # is \<Rightarrow> fold max is i + 1)"

definition insert_row :: "'a table \<Rightarrow> 'a \<Rightarrow> 'a table" where
  "insert_row rows p = rows @ [(next_id rows, p)]"

section \<open>The session\<close>

text \<open>
  \<open>db.session\<close> holds the pending objects in the order they were added. An object is
  known by its identity (a number given to it when it is constructed), not by its
  fields: adding an object that is already pending changes nothing, and two objects
  with equal fields are two rows. A request starts with an empty session.
\<close>

datatype model_object = InputPersonObj InputPerson | OutputPersonObj OutputPerson

type_synonym session = "(nat \<times> model_object) list"

definition session_add :: "session \<Rightarrow> nat \<times> model_object \<Rightarrow> session" where
  "session_add sess obj = (if fst obj \<in> set (map fst sess) then sess else sess @ [obj])"

fun pending_inputs :: "session \<Rightarrow> InputPerson list" where
  "pending_inputs [] = []"
| "pending_inputs ((r, InputPersonObj p) # sess) = p # pending_inputs sess"
| "pending_inputs ((r, OutputPersonObj p) # sess) = pending_inputs sess"

fun pending_outputs :: "session \<Rightarrow> OutputPerson list" where
  "pending_outputs [] = []"
| "pending_outputs ((r, InputPersonObj p) # sess) = pending_outputs sess"
| "pending_outputs ((r, OutputPersonObj p) # sess) = p # pending_outputs sess"

text \<open>
  \<open>db.session.commit()\<close>: the pending objects of each model are inserted into its
  table in the order they were added. An insert into a table that does not exist
  raises, and then nothing is written.
\<close>

definition commit :: "session \<Rightarrow> database \<Rightarrow> error + database" where
  "commit sess db =
     (let ins = pending_inputs sess; outs = pending_outputs sess in
      if ins \<noteq> [] \<and> input_database db = None then Inl OperationalError
      else if outs \<noteq> [] \<and> default_database db = None then Inl OperationalError
      else Inr (db\<lparr>input_database := map_option (\<lambda>rows. foldl insert_row rows ins) (input_database db),
                    default_database := map_option (\<lambda>rows. foldl insert_row rows outs) (default_database db)\<rparr>))"

section \<open>What a handler returns\<close>

datatype json =
    JNull | JInt int | JBool bool | JStr string
  | JList "json list" | JObj "(string \<times> json) list"

datatype response = Text string | Json json

text \<open>\<open>jsonify\<close> of an attribute: \<open>None\<close> is \<open>null\<close>.\<close>

definition json_str :: "string option \<Rightarrow> json" where
  "json_str v = (case v of None \<Rightarrow> JNull | Some s \<Rightarrow> JStr s)"

definition json_int :: "int option \<Rightarrow> json" where
  "json_int v = (case v of None \<Rightarrow> JNull | Some i \<Rightarrow> JInt i)"

definition json_bool :: "bool option \<Rightarrow> json" where
  "json_bool v = (case v of None \<Rightarrow> JNull | Some b \<Rightarrow> JBool b)"

text \<open>\<open>str(n)\<close> of a Python int: its decimal digits, with a minus sign below zero.\<close>

function str_nat :: "nat \<Rightarrow> string" where
  "str_nat n =
     (if n < 10 then [''0123456789'' ! n]
      else str_nat (n div 10) @ [''0123456789'' ! (n mod 10)])"
  by pat_completeness auto
termination
  by (relation "measure id") auto

definition str_int :: "int \<Rightarrow> string" where
  "str_int i = (if i < 0 then ''-'' @ str_nat (nat (- i)) else str_nat (nat i))"

section \<open>The handlers\<close>

text \<open>
  A handler takes the databases and returns what the view function returns (or the
  exception it lets through) with the databases it leaves behind.
\<close>

type_synonym handler = "database \<Rightarrow> (error + response) \<times> database"

subsection \<open>\<open>/create_input_database\<close>\<close>

text \<open>
  The three constructed objects are the objects 0, 1 and 2 of the request. The
  variable \<open>new_person\<close> still names the second one when the handler calls
  \<open>db.session.add(new_person)\<close> for the last time.
\<close>

definition create_input_database :: handler where
  "create_input_database db0 =
     (let db1 = drop_all (Some ''input_database'') db0;
          db2 = create_all (Some ''input_database'') db1;
          new_person = (0, InputPersonObj
            \<lparr>name = Some ''Richard Cunningham'', nickname = Some ''Richie'',
             gender = Some ''male'', age = Some 19\<rparr>);
          sess1 = session_add [] new_person;
          new_person = (1, InputPersonObj
            \<lparr>name = Some ''Arthur Herbert Fonzarelli'', nickname = Some ''Fonzie'',
             gender = Some ''male'', age = Some 20\<rparr>);
          sess2 = session_add sess1 new_person;
          sess3 = session_add sess2 (2, InputPersonObj
            \<lparr>name = Some ''Joanie Cunningham'', nickname = Some ''Joanie'',
             gender = Some ''female'', age = Some 20\<rparr>);
          sess4 = session_add sess3 new_person
      in case commit sess4 db2 of
           Inl e \<Rightarrow> (Inl e, db2)
         | Inr db3 \<Rightarrow> (Inr (Text ''ok''), db3))"

subsection \<open>\<open>/show_input_database\<close>\<close>

definition show_input_database :: handler where
  "show_input_database db =
     (case InputPerson_query_all db of
        Inl e \<Rightarrow> (Inl e, db)
      | Inr list_of_people \<Rightarrow>
          (Inr (Json (JList (map (\<lambda>(i, person).
             JObj [(''id'', JInt i),
                   (''name'', json_str (name person)),
                   (''nickname'', json_str (nickname person)),
                   (''gender'', json_str (gender person)),
                   (''age'', json_int (age person))]) list_of_people))), db))"

subsection \<open>\<open>/show_output_database\<close>\<close>

text \<open>
  The loop over the rows: \<open>person.first_name\<close> is computed for each row, outside the
  \<open>try\<close>, so its exception ends the loop and leaves the handler.
\<close>

fun output_loop :: "OutputPerson table \<Rightarrow> json list \<Rightarrow> error + json list" where
  "output_loop [] output_list = Inr output_list"
| "output_loop ((i, person) # rest) output_list =
     (case first_name person of
        Inl e \<Rightarrow> Inl e
      | Inr fn \<Rightarrow>
          output_loop rest (output_list @
            [JObj [(''id'', JInt i),
                   (''name'', json_str (name person)),
                   (''nickname'', json_str (nickname person)),
                   (''gender'', json_str (gender person)),
                   (''age'', json_int (age person)),
                   (''is_cool'', json_bool (is_cool person)),
                   (''first_name'', JStr fn)]]))"

definition show_output_database :: handler where
  "show_output_database db =
     (case OutputPerson_query_all db of
        Inl e \<Rightarrow>
          (Inr (Json (JObj
             [(''status'', JStr ''error''),
              (''what_happened'',
               JStr ''Could not access output database. Did you create it already?'')])), db)
      | Inr list_of_people \<Rightarrow>
          (case output_loop list_of_people [] of
             Inl e \<Rightarrow> (Inl e, db)
           | Inr output_list \<Rightarrow> (Inr (Json (JList output_list)), db)))"

subsection \<open>\<open>/process_everything\<close>\<close>

text \<open>
  The loop over the input rows, with the next object identity \<open>obj\<close>, the session
  and the two counters.
\<close>

fun process_loop ::
  "InputPerson table \<Rightarrow> nat \<Rightarrow> session \<Rightarrow> int \<Rightarrow> int \<Rightarrow> session \<times> int \<times> int" where
  "process_loop [] obj sess number_of_people_processed number_of_cool_people_processed =
     (sess, number_of_people_processed, number_of_cool_people_processed)"
| "process_loop ((i, input_person) # rest) obj sess
       number_of_people_processed number_of_cool_people_processed =
     (let (is_this_person_cool, cool') =
            (if nickname input_person = Some ''Fonzie''
             then (True, number_of_cool_people_processed + 1)
             else (False, number_of_cool_people_processed));
          new_output_person =
            \<lparr>name = name input_person, nickname = nickname input_person,
             gender = gender input_person, age = age input_person,
             is_cool = Some is_this_person_cool\<rparr>
      in process_loop rest (Suc obj)
           (session_add sess (obj, OutputPersonObj new_output_person))
           (number_of_people_processed + 1) cool')"

definition process_everything :: handler where
  "process_everything db0 =
     (let db1 = drop_all None db0;
          db2 = create_all None db1
      in case InputPerson_query_all db2 of
           Inl e \<Rightarrow> (Inl e, db2)
         | Inr list_of_input_people \<Rightarrow>
             (let (sess, number_of_people_processed, number_of_cool_people_processed) =
                    process_loop list_of_input_people 0 [] 0 0
              in case commit sess db2 of
                   Inl e \<Rightarrow> (Inl e, db2)
                 | Inr db3 \<Rightarrow>
                     (Inr (Text (str_int number_of_people_processed
                                 @ '' people processed of which ''
                                 @ str_int number_of_cool_people_processed
                                 @ '' were cool'')), db3)))"

subsection \<open>\<open>/create_lots_of_people\<close>\<close>



section \<open>The spec's words for the Transformer\<close>

text \<open>
  A destination record copies \<open>name\<close>, \<open>nickname\<close>,
  \<open>gender\<close> and \<open>age\<close> verbatim, and \<open>is_cool = (nickname == "Fonzie")\<close>.
\<close>

definition transform :: "InputPerson \<Rightarrow> OutputPerson" where
  "transform p =
     \<lparr>name = name p, nickname = nickname p, gender = gender p, age = age p,
      is_cool = Some (nickname p = Some ''Fonzie'')\<rparr>"

section \<open>Values the statements name\<close>

text \<open>The record every turn of \<open>create_lots_of_people\<close> builds.\<close>

definition filler :: InputPerson where
  "filler = \<lparr>name = Some ''Someone else'', nickname = Some ''Too boring to have a nickname'',
             gender = Some ''Unclear'', age = Some 25\<rparr>"

text \<open>The three records \<open>create_input_database\<close> builds.\<close>

definition richie :: InputPerson where
  "richie = \<lparr>name = Some ''Richard Cunningham'', nickname = Some ''Richie'',
             gender = Some ''male'', age = Some 19\<rparr>"

definition fonzie :: InputPerson where
  "fonzie = \<lparr>name = Some ''Arthur Herbert Fonzarelli'', nickname = Some ''Fonzie'',
             gender = Some ''male'', age = Some 20\<rparr>"

definition joanie :: InputPerson where
  "joanie = \<lparr>name = Some ''Joanie Cunningham'', nickname = Some ''Joanie'',
             gender = Some ''female'', age = Some 20\<rparr>"

text \<open>A state in which neither table was ever created, for the examples.\<close>

definition no_tables :: database where
  "no_tables = \<lparr>input_database = None, default_database = None\<rparr>"

text \<open>The input table as \<open>create_input_database\<close> leaves it, before any pipeline run.\<close>

definition seeded :: database where
  "seeded = \<lparr>input_database = Some [(1, richie), (2, fonzie), (3, joanie)],
             default_database = None\<rparr>"

declare str_nat.simps [simp del]

section \<open>Splitting on whitespace\<close>

lemma str_split_Nil_iff: "str_split s = [] \<longleftrightarrow> list_all isspace s"
  by (induction s) auto

lemma str_split_hd: "str_split s = tok # rest \<Longrightarrow> tok = first_token s"
  by (induction s) (auto simp: first_token_def split: if_splits)

lemma first_name_token:
  assumes "name p = Some s" and "has_token s"
  shows "first_name p = Inr (first_token s)"
proof (cases "str_split s")
  case Nil
  then have "list_all isspace s" by (simp add: str_split_Nil_iff)
  with assms(2) show ?thesis by (simp add: has_token_def)
next
  case (Cons tok rest)
  then have "tok = first_token s" by (rule str_split_hd)
  with Cons assms(1) show ?thesis by (simp add: first_name_def)
qed

lemma first_name_blank:
  assumes "name p = Some s" and "list_all isspace s"
  shows "first_name p = Inl IndexError"
proof -
  have "str_split s = []" using assms(2) by (simp add: str_split_Nil_iff)
  with assms(1) show ?thesis by (simp add: first_name_def)
qed

section \<open>Inserting rows\<close>

lemma next_id_alt: "next_id rows = (if rows = [] then 1 else Max (set (map fst rows)) + 1)"
proof (cases rows)
  case Nil
  then show ?thesis by (simp add: next_id_def)
next
  case (Cons a list)
  have "fold max (map fst list) (fst a) = Max (set (fst a # map fst list))"
    by (rule Max.set_eq_fold [symmetric])
  then show ?thesis using Cons by (simp add: next_id_def)
qed

lemma next_id_insert_row: "next_id (insert_row rows p) = next_id rows + 1"
proof (cases "rows = []")
  case True
  then show ?thesis by (simp add: next_id_alt insert_row_def)
next
  case False
  let ?S = "set (map fst rows)"
  have fin: "finite ?S" and ne: "?S \<noteq> {}" using False by auto
  have "Max (insert (Max ?S + 1) ?S) = max (Max ?S + 1) (Max ?S)"
    using fin ne by (rule Max_insert)
  then show ?thesis using False by (simp add: next_id_alt insert_row_def)
qed

lemma foldl_insert_row:
  "foldl insert_row rows ps = rows @ zip (map (\<lambda>k. next_id rows + int k) [0..<length ps]) ps"
proof (induction ps arbitrary: rows)
  case Nil
  show ?case by simp
next
  case (Cons p ps)
  let ?Z = "zip (map (\<lambda>k. next_id rows + 1 + int k) [0..<length ps]) ps"
  have m: "map (\<lambda>k. next_id rows + int k) [0..<Suc (length ps)]
        = next_id rows # map (\<lambda>k. next_id rows + 1 + int k) [0..<length ps]"
    by (simp add: upt_conv_Cons map_Suc_upt [symmetric] del: upt_Suc)
  have "foldl insert_row rows (p # ps) = foldl insert_row (insert_row rows p) ps"
    by simp
  also have "\<dots> = insert_row rows p @ ?Z"
    by (simp add: Cons.IH next_id_insert_row)
  also have "\<dots> = rows @ (next_id rows, p) # ?Z"
    by (simp add: insert_row_def)
  finally show ?case
    by (simp add: m del: upt_Suc foldl_Cons)
qed

lemma foldl_insert_row_Nil:
  "foldl insert_row [] ps = zip (map (\<lambda>k. 1 + int k) [0..<length ps]) ps"
  by (simp add: foldl_insert_row next_id_def)


section \<open>The session of a loop\<close>

lemma session_add_fresh:
  "\<forall>r \<in> set (map fst sess). r < obj \<Longrightarrow> session_add sess (obj, x) = sess @ [(obj, x)]"
  by (auto simp: session_add_def)

lemma pending_outputs_zip_out:
  "length rs = length ps \<Longrightarrow> pending_outputs (zip rs (map OutputPersonObj ps)) = ps"
  by (induction rs ps rule: list_induct2) simp_all

lemma pending_inputs_zip_out:
  "pending_inputs (zip rs (map OutputPersonObj ps)) = []"
  by (induction ps arbitrary: rs) (simp, case_tac rs, simp_all)



lemma process_loop_eq:
  "\<forall>r \<in> set (map fst sess). r < obj \<Longrightarrow>
   process_loop rows obj sess n c =
     (sess @ zip [obj..<obj + length rows] (map OutputPersonObj (map (transform \<circ> snd) rows)),
      n + int (length rows),
      c + int (length (filter (\<lambda>(i, p). nickname p = Some ''Fonzie'') rows)))"
proof (induction rows arbitrary: obj sess n c)
  case Nil
  show ?case by simp
next
  case (Cons row rows)
  obtain i p where row: "row = (i, p)" by (cases row)
  let ?s = "sess @ [(obj, OutputPersonObj (transform p))]"
  have inv: "\<forall>r \<in> set (map fst ?s). r < Suc obj"
    using Cons.prems by (auto simp: less_Suc_eq)
  have add: "session_add sess (obj, OutputPersonObj (transform p)) = ?s"
    using Cons.prems by (rule session_add_fresh)
  have up: "[obj..<obj + Suc (length rows)] = obj # [Suc obj..<Suc obj + length rows]"
    by (simp add: upt_conv_Cons del: upt_Suc)
  show ?case
  proof (cases "nickname p = Some ''Fonzie''")
    case True
    then have "process_loop (row # rows) obj sess n c = process_loop rows (Suc obj) ?s (n + 1) (c + 1)"
      using add by (simp add: row transform_def)
    then show ?thesis using True Cons.IH [OF inv] up by (simp add: row del: upt_Suc)
  next
    case False
    then have "process_loop (row # rows) obj sess n c = process_loop rows (Suc obj) ?s (n + 1) c"
      using add by (simp add: row transform_def)
    then show ?thesis using False Cons.IH [OF inv] up by (simp add: row del: upt_Suc)
  qed
qed


lemma process_everything_Some:
  assumes "input_database db = Some rows"
  shows "process_everything db =
    (Inr (Text (str_int (int (length rows)) @ '' people processed of which ''
                @ str_int (int (length (filter (\<lambda>(i, p). nickname p = Some ''Fonzie'') rows)))
                @ '' were cool'')),
     db\<lparr>default_database :=
          Some (zip (map (\<lambda>k. 1 + int k) [0..<length rows]) (map (transform \<circ> snd) rows))\<rparr>)"
proof -
  let ?db2 = "create_all None (drop_all None db)"
  have db2: "?db2 = db\<lparr>default_database := Some []\<rparr>"
    by (simp add: create_all_def drop_all_def)
  have q: "InputPerson_query_all ?db2 = Inr rows"
    using assms by (simp add: db2 InputPerson_query_all_def)
  define sess where
    "sess = zip [0..<0 + length rows] (map OutputPersonObj (map (transform \<circ> snd) rows))"
  have loop: "process_loop rows 0 [] 0 0 =
      (sess, int (length rows),
       int (length (filter (\<lambda>(i, p). nickname p = Some ''Fonzie'') rows)))"
    unfolding sess_def using process_loop_eq [of "[]" 0 rows 0 0] by simp
  have po: "pending_outputs sess = map (transform \<circ> snd) rows"
    unfolding sess_def by (rule pending_outputs_zip_out) simp
  have pi: "pending_inputs sess = []"
    unfolding sess_def by (rule pending_inputs_zip_out)
  have same: "db\<lparr>input_database := Some rows\<rparr> = db"
    using assms by (cases db) simp
  have c: "commit sess ?db2 =
      Inr (db\<lparr>default_database :=
          Some (zip (map (\<lambda>k. 1 + int k) [0..<length rows]) (map (transform \<circ> snd) rows))\<rparr>)"
    using assms same by (simp add: commit_def po pi db2 foldl_insert_row_Nil Let_def)
  show ?thesis
    unfolding process_everything_def Let_def q sum.case loop prod.case c ..
qed

lemma process_everything_None:
  assumes "input_database db = None"
  shows "process_everything db = (Inl OperationalError, db\<lparr>default_database := Some []\<rparr>)"
  using assms
  by (simp add: process_everything_def create_all_def drop_all_def InputPerson_query_all_def)

section \<open>What the handlers compute\<close>

lemma create_input_database_eq:
  "create_input_database db =
     (Inr (Text ''ok''), db\<lparr>input_database := Some [(1, richie), (2, fonzie), (3, joanie)]\<rparr>)"
proof -
  let ?db2 = "create_all (Some ''input_database'') (drop_all (Some ''input_database'') db)"
  have db2: "?db2 = db\<lparr>input_database := Some []\<rparr>"
    by (simp add: create_all_def drop_all_def)
  let ?sess = "[(0, InputPersonObj richie), (Suc 0, InputPersonObj fonzie), (2, InputPersonObj joanie)]"
  have c: "commit ?sess (db\<lparr>input_database := Some []\<rparr>)
         = Inr (db\<lparr>input_database := Some [(1, richie), (2, fonzie), (3, joanie)]\<rparr>)"
    by (cases db) (simp add: commit_def insert_row_def next_id_def option.map_ident)
  show ?thesis
    by (simp add: create_input_database_def db2 session_add_def c Let_def
          richie_def [symmetric] fonzie_def [symmetric] joanie_def [symmetric])
qed




lemma show_output_database_None:
  assumes "default_database db = None"
  shows "show_output_database db =
    (Inr (Json (JObj
       [(''status'', JStr ''error''),
        (''what_happened'',
         JStr ''Could not access output database. Did you create it already?'')])), db)"
  using assms by (simp add: show_output_database_def OutputPerson_query_all_def)

lemma show_input_database_None:
  assumes "input_database db = None"
  shows "show_input_database db = (Inl OperationalError, db)"
  using assms by (simp add: show_input_database_def InputPerson_query_all_def)

section \<open>Failures of \<open>first_name\<close> in \<open>show_output_database\<close>\<close>

lemma isspace_space: "isspace CHR '' ''"
  by (simp add: isspace_def)

lemma first_name_TypeError: "first_name p = Inl TypeError \<longleftrightarrow> name p = None"
  by (auto simp: first_name_def split: option.splits list.splits)

lemma first_name_error: "first_name p = Inl e \<Longrightarrow> e = IndexError \<or> e = TypeError"
  by (auto simp: first_name_def split: option.splits list.splits)

lemma output_loop_fails:
  "(i, p) \<in> set rows \<Longrightarrow> first_name p = Inl e \<Longrightarrow> \<exists>e'. output_loop rows acc = Inl e'"
proof (induction rows arbitrary: acc)
  case Nil
  then show ?case by simp
next
  case (Cons row rows)
  obtain j q where row: "row = (j, q)" by (cases row)
  show ?case
  proof (cases "first_name q")
    case (Inl e')
    then show ?thesis by (simp add: row)
  next
    case (Inr fn)
    with Cons.prems row have "(i, p) \<in> set rows" by auto
    from Cons.IH [OF this Cons.prems(2)] Inr show ?thesis by (simp add: row)
  qed
qed

lemma output_loop_error:
  "output_loop rows acc = Inl e \<Longrightarrow> \<exists>(i, p) \<in> set rows. first_name p = Inl e"
proof (induction rows arbitrary: acc)
  case Nil
  then show ?case by simp
next
  case (Cons row rows)
  obtain j q where row: "row = (j, q)" by (cases row)
  show ?case
  proof (cases "first_name q")
    case (Inl e')
    with Cons.prems row show ?thesis by simp
  next
    case (Inr fn)
    with Cons.prems row have "output_loop rows (acc @
            [JObj [(''id'', JInt j),
                   (''name'', json_str (name q)),
                   (''nickname'', json_str (nickname q)),
                   (''gender'', json_str (gender q)),
                   (''age'', json_int (age q)),
                   (''is_cool'', json_bool (is_cool q)),
                   (''first_name'', JStr fn)]]) = Inl e" by simp
    from Cons.IH [OF this] show ?thesis by auto
  qed
qed

lemma show_output_database_fails:
  assumes "default_database db = Some rows" "(i, p) \<in> set rows" "first_name p = Inl e"
  shows "\<exists>e'. show_output_database db = (Inl e', db) \<and> (\<exists>(j, q) \<in> set rows. first_name q = Inl e')"
proof -
  obtain e' where e': "output_loop rows [] = Inl e'"
    using output_loop_fails [OF assms(2,3)] by blast
  then have "\<exists>(j, q) \<in> set rows. first_name q = Inl e'" by (rule output_loop_error)
  moreover have "show_output_database db = (Inl e', db)"
    using assms(1) e' by (simp add: show_output_database_def OutputPerson_query_all_def)
  ultimately show ?thesis by blast
qed

section \<open>The claims about \<open>first_name\<close>\<close>

text \<open>
  C5. For every destination record whose name has at least one whitespace-delimited
  token, \<open>first_name\<close> is the first whitespace-delimited token of the name: what
  \<open>str.split(self.name)[0]\<close> computes is the spec's \<open>first_token\<close>. In particular
  the name "Joanie Cunningham" gives "Joanie".
\<close>

theorem first_name_first_token:
  assumes "name p = Some s" and "has_token s"
  shows "first_name p = Inr (first_token s)
       \<and> first_name (p\<lparr>name := Some ''Joanie Cunningham''\<rparr>) = Inr ''Joanie''"
proof -
  have "str_split ''Joanie Cunningham'' = [''Joanie'', ''Cunningham'']"
    by (simp add: isspace_def)
  then have "first_name (p\<lparr>name := Some ''Joanie Cunningham''\<rparr>) = Inr ''Joanie''"
    by (simp add: first_name_def)
  with first_name_token [OF assms] show ?thesis by simp
qed

theorem first_name_first_token_witness:
  "has_token ''Arthur Herbert Fonzarelli''
   \<and> first_token ''Arthur Herbert Fonzarelli'' = ''Arthur''
   \<and> first_name (transform fonzie) = Inr ''Arthur''"
proof -
  have n: "name (transform fonzie) = Some ''Arthur Herbert Fonzarelli''"
    by (simp add: transform_def fonzie_def)
  have h: "has_token ''Arthur Herbert Fonzarelli''"
    by (simp add: has_token_def isspace_def)
  have t: "first_token ''Arthur Herbert Fonzarelli'' = ''Arthur''"
    by (simp add: first_token_def isspace_def)
  from first_name_first_token [OF n h] h t show ?thesis by simp
qed

text \<open>
  C6. On a destination record whose name is the empty string, \<open>first_name\<close> fails
  with IndexError. Nothing catches it and no default stands in: the one caller,
  \<open>show_output_database\<close>, fails on every table that holds such a row, and with
  IndexError when no name in the table is \<open>None\<close>.
\<close>

theorem first_name_empty_name:
  assumes "name p = Some ''''"
    and "default_database db = Some rows" and "(i, p) \<in> set rows"
  shows "first_name p = Inl IndexError
       \<and> (\<exists>e. show_output_database db = (Inl e, db))
       \<and> (list_all (\<lambda>(j, q). name q \<noteq> None) rows
            \<longrightarrow> show_output_database db = (Inl IndexError, db))"
proof -
  have f: "first_name p = Inl IndexError"
    using assms(1) by (simp add: first_name_def)
  from show_output_database_fails [OF assms(2,3) f]
  obtain e j q where e: "show_output_database db = (Inl e, db)"
    and q: "(j, q) \<in> set rows" "first_name q = Inl e" by blast
  have "e = IndexError" if "list_all (\<lambda>(j, q). name q \<noteq> None) rows"
  proof -
    from that q(1) have "name q \<noteq> None" by (auto simp: list_all_iff)
    with q(2) first_name_error [OF q(2)] show ?thesis by (auto simp: first_name_TypeError)
  qed
  with f e show ?thesis by auto
qed

theorem first_name_empty_name_witness:
  "first_name (transform filler\<lparr>name := Some ''''\<rparr>) = Inl IndexError
   \<and> show_output_database
       \<lparr>input_database = None, default_database = Some [(1, transform filler\<lparr>name := Some ''''\<rparr>)]\<rparr>
     = (Inl IndexError,
        \<lparr>input_database = None, default_database = Some [(1, transform filler\<lparr>name := Some ''''\<rparr>)]\<rparr>)"
  using first_name_empty_name [of "transform filler\<lparr>name := Some ''''\<rparr>"
      "\<lparr>input_database = None, default_database = Some [(1, transform filler\<lparr>name := Some ''''\<rparr>)]\<rparr>"
      "[(1, transform filler\<lparr>name := Some ''''\<rparr>)]" 1]
  by simp

text \<open>
  C10. \<open>first_name\<close> fails with IndexError for every name that consists of
  whitespace only, the name \<open>" "\<close> among them, and so does not return for the empty
  name alone; \<open>show_output_database\<close> fails on every table that holds such a row.
\<close>

theorem first_name_whitespace_only:
  assumes "name p = Some s" and "list_all isspace s"
    and "default_database db = Some rows" and "(i, p) \<in> set rows"
  shows "first_name p = Inl IndexError
       \<and> first_name (p\<lparr>name := Some '' ''\<rparr>) = Inl IndexError
       \<and> (\<exists>e. show_output_database db = (Inl e, db))"
proof -
  have f: "first_name p = Inl IndexError"
    using assms(1,2) by (rule first_name_blank)
  have g: "first_name (p\<lparr>name := Some '' ''\<rparr>) = Inl IndexError"
    by (rule first_name_blank [of _ "'' ''"]) (simp_all add: isspace_space)
  from show_output_database_fails [OF assms(3,4) f] f g show ?thesis by blast
qed

theorem first_name_whitespace_only_witness:
  "list_all isspace '' ''
   \<and> first_name (transform filler\<lparr>name := Some '' ''\<rparr>) = Inl IndexError
   \<and> (\<exists>e. show_output_database
       \<lparr>input_database = None, default_database = Some [(7, transform filler\<lparr>name := Some '' ''\<rparr>)]\<rparr>
     = (Inl e,
        \<lparr>input_database = None, default_database = Some [(7, transform filler\<lparr>name := Some '' ''\<rparr>)]\<rparr>))"
proof -
  have a: "name (transform filler\<lparr>name := Some '' ''\<rparr>) = Some '' ''" by simp
  have b: "list_all isspace '' ''" by (simp add: isspace_space)
  have c: "default_database \<lparr>input_database = None,
      default_database = Some [(7, transform filler\<lparr>name := Some '' ''\<rparr>)]\<rparr>
      = Some [(7, transform filler\<lparr>name := Some '' ''\<rparr>)]" by simp
  have d: "(7, transform filler\<lparr>name := Some '' ''\<rparr>) \<in> set [(7, transform filler\<lparr>name := Some '' ''\<rparr>)]"
    by simp
  from first_name_whitespace_only [OF a b c d] b show ?thesis by blast
qed

section \<open>The claims about the pipeline\<close>

text \<open>
  C1. For every pipeline run over a source table, the destination rows stand in the
  order of the source rows, a destination row has \<open>is_cool\<close> true exactly when its
  source row has the nickname "Fonzie" and false otherwise, and the cool count in
  the returned text is the number of source rows with that nickname.
\<close>

theorem pipeline_marks_fonzie:
  assumes "input_database db = Some rows"
  shows "\<exists>outs. default_database (snd (process_everything db)) = Some outs
           \<and> map (\<lambda>(j, q). is_cool q) outs
               = map (\<lambda>(i, p). Some (nickname p = Some ''Fonzie'')) rows
           \<and> fst (process_everything db)
               = Inr (Text (str_int (int (length rows)) @ '' people processed of which ''
                   @ str_int (int (length (filter (\<lambda>(i, p). nickname p = Some ''Fonzie'') rows)))
                   @ '' were cool''))"
proof -
  let ?outs = "zip (map (\<lambda>k. 1 + int k) [0..<length rows]) (map (transform \<circ> snd) rows)"
  have ms: "map snd ?outs = map (transform \<circ> snd) rows"
    by (rule map_snd_zip) simp
  have "map (\<lambda>(j, q). is_cool q) ?outs = map (is_cool \<circ> snd) ?outs"
    by (simp only: case_prod_unfold comp_def)
  also have "\<dots> = map is_cool (map snd ?outs)"
    by (simp only: map_map)
  also have "\<dots> = map is_cool (map (transform \<circ> snd) rows)"
    by (simp only: ms)
  also have "\<dots> = map (\<lambda>(i, p). Some (nickname p = Some ''Fonzie'')) rows"
    by (simp add: case_prod_unfold transform_def)
  finally have cool: "map (\<lambda>(j, q). is_cool q) ?outs
      = map (\<lambda>(i, p). Some (nickname p = Some ''Fonzie'')) rows" .
  have d: "default_database (snd (process_everything db)) = Some ?outs"
    by (simp add: process_everything_Some [OF assms])
  have f: "fst (process_everything db)
      = Inr (Text (str_int (int (length rows)) @ '' people processed of which ''
          @ str_int (int (length (filter (\<lambda>(i, p). nickname p = Some ''Fonzie'') rows)))
          @ '' were cool''))"
    by (simp add: process_everything_Some [OF assms])
  from d cool f show ?thesis by blast
qed


theorem pipeline_marks_fonzie_witness:
  "input_database seeded = Some [(1, richie), (2, fonzie), (3, joanie)]
   \<and> (\<exists>outs. default_database (snd (process_everything seeded)) = Some outs
        \<and> map (\<lambda>(j, q). is_cool q) outs = [Some False, Some True, Some False])
   \<and> fst (process_everything seeded) = Inr (Text ''3 people processed of which 1 were cool'')"
proof -
  have h: "input_database seeded = Some [(1, richie), (2, fonzie), (3, joanie)]"
    by (simp add: seeded_def)
  have s3: "str_int 3 = ''3''" and s1: "str_int 1 = ''1''"
    by (simp_all add: str_int_def str_nat.simps)
  from pipeline_marks_fonzie [OF h]
  obtain outs where a: "default_database (snd (process_everything seeded)) = Some outs"
    and b: "map (\<lambda>(j, q). is_cool q) outs = [Some False, Some True, Some False]"
    and c: "fst (process_everything seeded) = Inr (Text ''3 people processed of which 1 were cool'')"
    by (auto simp: s3 s1 richie_def fonzie_def joanie_def)
  from a b have "\<exists>outs. default_database (snd (process_everything seeded)) = Some outs
        \<and> map (\<lambda>(j, q). is_cool q) outs = [Some False, Some True, Some False]"
    by (intro exI conjI)
  with h c show ?thesis by (intro conjI)
qed

text \<open>
  C2. \<open>create_input_database\<close> leaves exactly the three rows Richard
  Cunningham/Richie/male/19, Arthur Herbert Fonzarelli/Fonzie/male/20 and Joanie
  Cunningham/Joanie/female/20 in the input table, whatever was there before, and
  returns "ok". The pipeline run that follows returns "3 people processed of which
  1 were cool", and of its three destination rows only the one with the nickname
  "Fonzie" has \<open>is_cool\<close> true.
\<close>

theorem seed_then_pipeline:
  "create_input_database db
     = (Inr (Text ''ok''), db\<lparr>input_database := Some [(1, richie), (2, fonzie), (3, joanie)]\<rparr>)
   \<and> fst (process_everything (snd (create_input_database db)))
     = Inr (Text ''3 people processed of which 1 were cool'')
   \<and> default_database (snd (process_everything (snd (create_input_database db))))
     = Some [(1, transform richie), (2, transform fonzie), (3, transform joanie)]
   \<and> map (\<lambda>p. (nickname p, is_cool p)) [transform richie, transform fonzie, transform joanie]
     = [(Some ''Richie'', Some False), (Some ''Fonzie'', Some True), (Some ''Joanie'', Some False)]"
proof -
  let ?rows = "[(1, richie), (2, fonzie), (3, joanie)]"
  let ?db = "db\<lparr>input_database := Some ?rows\<rparr>"
  have h: "input_database ?db = Some ?rows" by simp
  have s3: "str_int 3 = ''3''" and s1: "str_int 1 = ''1''"
    by (simp_all add: str_int_def str_nat.simps)
  have n: "nickname richie \<noteq> Some ''Fonzie''" "nickname fonzie = Some ''Fonzie''"
    "nickname joanie \<noteq> Some ''Fonzie''"
    by (simp_all add: richie_def fonzie_def joanie_def)
  have pe: "process_everything ?db =
      (Inr (Text ''3 people processed of which 1 were cool''),
       ?db\<lparr>default_database := Some [(1, transform richie), (2, transform fonzie), (3, transform joanie)]\<rparr>)"
    by (simp add: process_everything_Some [OF h] s3 s1 n)
  have m: "map (\<lambda>p. (nickname p, is_cool p)) [transform richie, transform fonzie, transform joanie]
     = [(Some ''Richie'', Some False), (Some ''Fonzie'', Some True), (Some ''Joanie'', Some False)]"
    by (simp add: transform_def richie_def fonzie_def joanie_def)
  show ?thesis
    by (simp only: create_input_database_eq snd_conv fst_conv pe m) simp
qed

text \<open>
  C3. A pipeline run drops whatever the destination table held: running the
  pipeline a second time gives the result and the state of the first run again, and
  the destination table after a run is the same for every destination content
  \<open>d\<close> before it, so it depends on the source table alone.
\<close>

theorem pipeline_replaces_destination:
  "process_everything (snd (process_everything db)) = process_everything db
   \<and> default_database (snd (process_everything (db\<lparr>default_database := d\<rparr>)))
       = default_database (snd (process_everything db))"
proof (cases "input_database db")
  case None
  have a: "process_everything db = (Inl OperationalError, db\<lparr>default_database := Some []\<rparr>)"
    using None by (rule process_everything_None)
  have b: "process_everything (db\<lparr>default_database := Some []\<rparr>)
      = (Inl OperationalError, db\<lparr>default_database := Some []\<rparr>)"
    using None by (simp add: process_everything_None)
  have c: "process_everything (db\<lparr>default_database := d\<rparr>)
      = (Inl OperationalError, db\<lparr>default_database := Some []\<rparr>)"
    using None by (simp add: process_everything_None)
  show ?thesis by (simp add: a b c)
next
  case (Some rows)
  let ?outs = "zip (map (\<lambda>k. 1 + int k) [0..<length rows]) (map (transform \<circ> snd) rows)"
  have h: "input_database (db\<lparr>default_database := x\<rparr>) = Some rows" for x
    using Some by simp
  show ?thesis
    by (simp add: process_everything_Some [OF Some] process_everything_Some [OF h])
qed

text \<open>
  C7. For every source row of a pipeline run, the destination row at the same
  position carries its \<open>name\<close>, \<open>nickname\<close>, \<open>gender\<close> and \<open>age\<close> unchanged, and
  the destination record is these four copies with \<open>is_cool\<close> and nothing else.
\<close>

theorem pipeline_copies_fields:
  assumes "input_database db = Some rows"
  shows "\<exists>outs. default_database (snd (process_everything db)) = Some outs
           \<and> map (\<lambda>(j, q). (name q, nickname q, gender q, age q)) outs
               = map (\<lambda>(i, p). (name p, nickname p, gender p, age p)) rows
           \<and> map snd outs = map (\<lambda>(i, p).
                \<lparr>name = name p, nickname = nickname p, gender = gender p, age = age p,
                 is_cool = Some (nickname p = Some ''Fonzie'')\<rparr>) rows"
proof -
  let ?outs = "zip (map (\<lambda>k. 1 + int k) [0..<length rows]) (map (transform \<circ> snd) rows)"
  have ms: "map snd ?outs = map (transform \<circ> snd) rows"
    by (rule map_snd_zip) simp
  have "map (\<lambda>(j, q). (name q, nickname q, gender q, age q)) ?outs
      = map ((\<lambda>q. (name q, nickname q, gender q, age q)) \<circ> snd) ?outs"
    by (simp only: case_prod_unfold comp_def)
  also have "\<dots> = map (\<lambda>q. (name q, nickname q, gender q, age q)) (map snd ?outs)"
    by (simp only: map_map)
  also have "\<dots> = map (\<lambda>q. (name q, nickname q, gender q, age q)) (map (transform \<circ> snd) rows)"
    by (simp only: ms)
  also have "\<dots> = map (\<lambda>(i, p). (name p, nickname p, gender p, age p)) rows"
    by (simp add: case_prod_unfold transform_def)
  finally have copies: "map (\<lambda>(j, q). (name q, nickname q, gender q, age q)) ?outs
      = map (\<lambda>(i, p). (name p, nickname p, gender p, age p)) rows" .
  have whole: "map snd ?outs = map (\<lambda>(i, p).
                \<lparr>name = name p, nickname = nickname p, gender = gender p, age = age p,
                 is_cool = Some (nickname p = Some ''Fonzie'')\<rparr>) rows"
    by (simp only: ms) (simp add: case_prod_unfold transform_def)
  have d: "default_database (snd (process_everything db)) = Some ?outs"
    by (simp add: process_everything_Some [OF assms])
  from d copies whole show ?thesis by (intro exI conjI)
qed

theorem pipeline_copies_fields_witness:
  "\<exists>outs. default_database (snd (process_everything seeded)) = Some outs
     \<and> map (\<lambda>(j, q). (name q, nickname q, gender q, age q)) outs
         = [(Some ''Richard Cunningham'', Some ''Richie'', Some ''male'', Some 19),
            (Some ''Arthur Herbert Fonzarelli'', Some ''Fonzie'', Some ''male'', Some 20),
            (Some ''Joanie Cunningham'', Some ''Joanie'', Some ''female'', Some 20)]"
proof -
  have h: "input_database seeded = Some [(1, richie), (2, fonzie), (3, joanie)]"
    by (simp add: seeded_def)
  from pipeline_copies_fields [OF h]
  obtain outs where a: "default_database (snd (process_everything seeded)) = Some outs"
    and b: "map (\<lambda>(j, q). (name q, nickname q, gender q, age q)) outs
         = [(Some ''Richard Cunningham'', Some ''Richie'', Some ''male'', Some 19),
            (Some ''Arthur Herbert Fonzarelli'', Some ''Fonzie'', Some ''male'', Some 20),
            (Some ''Joanie Cunningham'', Some ''Joanie'', Some ''female'', Some 20)]"
    by (auto simp: richie_def fonzie_def joanie_def)
  then show ?thesis by (intro exI conjI)
qed

text \<open>
  C9. Schema operations on one store leave the other alone: dropping and recreating
  the default database, alone and inside a pipeline run, leaves the input table as
  it was, and dropping and recreating the input database, alone and inside
  \<open>create_input_database\<close>, leaves the destination table as it was.
\<close>

theorem stores_are_independent:
  "input_database (create_all None (drop_all None db)) = input_database db
   \<and> input_database (snd (process_everything db)) = input_database db
   \<and> default_database (create_all (Some ''input_database'') (drop_all (Some ''input_database'') db))
       = default_database db
   \<and> default_database (snd (create_input_database db)) = default_database db"
proof -
  have "input_database (snd (process_everything db)) = input_database db"
  proof (cases "input_database db")
    case None
    then show ?thesis by (simp add: process_everything_None)
  next
    case (Some rows)
    then show ?thesis by (simp add: process_everything_Some)
  qed
  then show ?thesis
    by (simp add: create_all_def drop_all_def create_input_database_eq)
qed

section \<open>The claims about the other handlers\<close>

text \<open>
  C4. When the destination table does not exist, \<open>show_output_database\<close> returns
  the payload with \<open>status = "error"\<close> and a non-empty \<open>what_happened\<close> instead of
  failing. When the source table does not exist, \<open>show_input_database\<close> and
  \<open>process_everything\<close> catch nothing and fail with the store's error.
\<close>

theorem missing_table_handling:
  assumes "default_database db = None" and "input_database db' = None"
  shows "show_output_database db =
           (Inr (Json (JObj
              [(''status'', JStr ''error''),
               (''what_happened'',
                JStr ''Could not access output database. Did you create it already?'')])), db)
       \<and> ''Could not access output database. Did you create it already?'' \<noteq> ''''
       \<and> fst (show_input_database db') = Inl OperationalError
       \<and> fst (process_everything db') = Inl OperationalError"
  using assms
  by (simp add: show_output_database_None show_input_database_None process_everything_None)

theorem missing_table_handling_witness:
  "show_output_database no_tables =
           (Inr (Json (JObj
              [(''status'', JStr ''error''),
               (''what_happened'',
                JStr ''Could not access output database. Did you create it already?'')])), no_tables)
       \<and> fst (show_input_database no_tables) = Inl OperationalError
       \<and> fst (process_everything no_tables) = Inl OperationalError"
proof -
  have a: "default_database no_tables = None" and b: "input_database no_tables = None"
    by (simp_all add: no_tables_def)
  from missing_table_handling [OF a b] show ?thesis by (intro conjI) (elim conjE, assumption)+
qed




end
